theory Spec2Isabelle
  imports Main "HOL-Library.AList"
begin

section \<open>JavaScript values as the bridge sees them\<close>

text \<open>
  Payloads typed \<open>any\<close> in the source are values produced by \<open>JSON.parse\<close>. A number is kept
  as its ECMAScript \<open>ToString\<close> rendering, since the bridge only ever prints a number or
  tests it for truthiness. An object is the list of its own properties (keys distinct).
  The JavaScript value \<open>undefined\<close> is \<open>None\<close> of \<open>json option\<close>.
\<close>

datatype json =
    JNull
  | JBool bool
  | JNum string
  | JStr string
  | JArr "json list"
  | JObj "(string \<times> json) list"

type_synonym any = "json option"

datatype js_error = Error string | TypeError string

fun error_message :: "js_error \<Rightarrow> string" where
  "error_message (Error m) = m"
| "error_message (TypeError m) = m"

text \<open>\<open>`${error}`\<close> for a thrown error object: \<open>Error.prototype.toString\<close>.\<close>

fun error_toString :: "js_error \<Rightarrow> string" where
  "error_toString (Error m) = (if m = [] then ''Error'' else ''Error: '' @ m)"
| "error_toString (TypeError m) = (if m = [] then ''TypeError'' else ''TypeError: '' @ m)"

text \<open>Truthiness, as tested by \<open>if (v)\<close> and \<open>v || d\<close>.\<close>

fun truthy :: "any \<Rightarrow> bool" where
  "truthy None = False"
| "truthy (Some JNull) = False"
| "truthy (Some (JBool b)) = b"
| "truthy (Some (JNum s)) = (s \<noteq> ''0'')"
| "truthy (Some (JStr s)) = (s \<noteq> [])"
| "truthy (Some (JArr xs)) = True"
| "truthy (Some (JObj kvs)) = True"

text \<open>
  The property read \<open>v.k\<close>, for the names the bridge reads (none of them lives on a
  prototype): the own property of an object, \<open>undefined\<close> on every other value that
  is neither \<open>null\<close> nor \<open>undefined\<close>; on those two the read throws a \<open>TypeError\<close>.
\<close>

fun own_prop :: "json \<Rightarrow> string \<Rightarrow> any" where
  "own_prop (JObj kvs) k = map_of kvs k"
| "own_prop v k = None"

fun get_prop :: "any \<Rightarrow> string \<Rightarrow> js_error + any" where
  "get_prop None k =
     Inl (TypeError (''Cannot read properties of undefined (reading '' @
                     [CHR 0x27] @ k @ [CHR 0x27] @ '')''))"
| "get_prop (Some v) k =
     (if v = JNull
      then Inl (TypeError (''Cannot read properties of null (reading '' @
                           [CHR 0x27] @ k @ [CHR 0x27] @ '')''))
      else Inr (own_prop v k))"

text \<open>The optional chain \<open>v?.k\<close>.\<close>

fun opt_prop :: "any \<Rightarrow> string \<Rightarrow> any" where
  "opt_prop None k = None"
| "opt_prop (Some v) k = (if v = JNull then None else own_prop v k)"

text \<open>\<open>v || d\<close> for a default \<open>d\<close> that is a value.\<close>

fun or_else :: "any \<Rightarrow> json \<Rightarrow> json" where
  "or_else None d = d"
| "or_else (Some v) d = (if truthy (Some v) then v else d)"

text \<open>
  \<open>ToString\<close>, as applied by template literals and by \<open>new Error(v)\<close>. An object parsed
  from JSON renders as \<open>[object Object]\<close> unless it has an own property \<open>toString\<close>, which
  shadows the inherited method with a value that cannot be called, and the conversion
  throws. An array joins its elements with commas, \<open>null\<close> elements rendering empty.
\<close>

fun toStr_json :: "json \<Rightarrow> js_error + string"
  and join_json :: "json list \<Rightarrow> js_error + string" where
  "toStr_json JNull = Inr ''null''"
| "toStr_json (JBool b) = Inr (if b then ''true'' else ''false'')"
| "toStr_json (JNum s) = Inr s"
| "toStr_json (JStr s) = Inr s"
| "toStr_json (JArr xs) = join_json xs"
| "toStr_json (JObj kvs) =
     (if map_of kvs ''toString'' \<noteq> None
      then Inl (TypeError ''Cannot convert object to primitive value'')
      else Inr ''[object Object]'')"
| "join_json [] = Inr []"
| "join_json (x # xs) =
     (case (if x = JNull then Inr [] else toStr_json x) of
        Inl e \<Rightarrow> Inl e
      | Inr s \<Rightarrow>
          (if xs = [] then Inr s
           else (case join_json xs of Inl e \<Rightarrow> Inl e | Inr r \<Rightarrow> Inr (s @ '','' @ r))))"

fun toStr :: "any \<Rightarrow> js_error + string" where
  "toStr None = Inr ''undefined''"
| "toStr (Some v) = toStr_json v"

section \<open>Server state\<close>

datatype ReadyState = CONNECTING | OPEN | CLOSING | CLOSED

text \<open>
  A pending request. \<open>resolve\<close> and \<open>reject\<close> are the two settling functions of one
  promise, kept here as that promise's handle; \<open>timeout\<close> is the handle of the timer.
\<close>

record PendingRequest =
  id_pr :: string
  toolName :: string
  timestamp :: nat
  promise :: nat
  timeout :: nat

text \<open>
  \<open>pendingRequests\<close> is a JavaScript \<open>Map\<close>: an association list in insertion order.
  \<open>Map.set\<close> is \<open>AList.update\<close> (in place for a present key, at the end for a new
  one), \<open>Map.delete\<close> is \<open>AList.delete\<close>, \<open>Map.get\<close> is \<open>map_of\<close>.
\<close>

record serverState =
  figmaConnection :: "nat option"
  pendingRequests :: "(string \<times> PendingRequest) list"
  isConnected :: bool

datatype outcome = Resolved any | Rejected js_error

text \<open>
  What the runtime holds besides \<open>serverState\<close>: the \<open>readyState\<close> of every socket, the
  armed timers (handle, with the request id and the promise its callback closes over),
  the log of every call of a \<open>resolve\<close> or \<open>reject\<close> function (oldest first), the frames
  handed to \<open>send\<close> (each as the JSON value its text denotes), and how many UUIDs,
  promises and timers have been created.
\<close>

record world = serverState +
  readyState :: "nat \<Rightarrow> ReadyState"
  timers :: "(nat \<times> string \<times> nat) list"
  settled :: "(nat \<times> outcome) list"
  sent :: "(nat \<times> json) list"
  uuidCalls :: nat
  promiseCount :: nat
  timerCount :: nat

definition startup :: "(nat \<Rightarrow> ReadyState) \<Rightarrow> world" where
  "startup rs =
     \<lparr>figmaConnection = None, pendingRequests = [], isConnected = False,
      readyState = rs, timers = [], settled = [], sent = [],
      uuidCalls = 0, promiseCount = 0, timerCount = 0\<rparr>"

definition isFigmaConnected :: "world \<Rightarrow> bool" where
  "isFigmaConnected w =
     (case figmaConnection w of
        None \<Rightarrow> False
      | Some ws \<Rightarrow> readyState w ws = OPEN)"

section \<open>Tool-to-WebSocket bridge\<close>

definition clearTimeout :: "nat \<Rightarrow> world \<Rightarrow> world" where
  "clearTimeout t w = w\<lparr>timers := AList.delete t (timers w)\<rparr>"

definition settle :: "nat \<Rightarrow> outcome \<Rightarrow> world \<Rightarrow> world" where
  "settle p out w = w\<lparr>settled := settled w @ [(p, out)]\<rparr>"

definition not_connected_error :: js_error where
  "not_connected_error =
     Error ''Figma plugin is not connected. Please open Figma and run the MCP plugin.''"

definition timeout_error :: js_error where
  "timeout_error = Error ''Request timeout: Figma did not respond within 5000ms''"

text \<open>
  A value as \<open>JSON.stringify\<close> writes it: a number that is not finite is written \<open>null\<close>,
  everything else that \<open>JSON.parse\<close> can produce is written as it is.
\<close>

fun as_written :: "json \<Rightarrow> json"
  and as_written_list :: "json list \<Rightarrow> json list"
  and as_written_props :: "(string \<times> json) list \<Rightarrow> (string \<times> json) list" where
  "as_written JNull = JNull"
| "as_written (JBool b) = JBool b"
| "as_written (JNum s) =
     (if s = ''NaN'' \<or> s = ''Infinity'' \<or> s = ''-Infinity'' then JNull else JNum s)"
| "as_written (JStr s) = JStr s"
| "as_written (JArr xs) = JArr (as_written_list xs)"
| "as_written (JObj kvs) = JObj (as_written_props kvs)"
| "as_written_list [] = []"
| "as_written_list (x # xs) = as_written x # as_written_list xs"
| "as_written_props [] = []"
| "as_written_props ((k, v) # kvs) = (k, as_written v) # as_written_props kvs"

definition tool_request :: "string \<Rightarrow> string \<Rightarrow> json \<Rightarrow> json" where
  "tool_request requestId tn args =
     JObj [(''id'', JStr requestId), (''type'', JStr ''tool_request''),
           (''tool'', JStr tn), (''args'', as_written args)]"

text \<open>
  \<open>sendToFigma\<close>. \<open>randomUUID\<close> is the sequence of values the library call returns, \<open>now\<close>
  the value of \<open>Date.now()\<close>, \<open>sendFault\<close> the error thrown by
  \<open>figmaConnection.send(JSON.stringify(request))\<close> if it throws. The result is \<open>Inl\<close> when
  the function throws before creating its promise, else the handle of the promise.
\<close>

definition sendToFigma ::
  "(nat \<Rightarrow> string) \<Rightarrow> nat \<Rightarrow> js_error option \<Rightarrow> string \<Rightarrow> json \<Rightarrow> world
     \<Rightarrow> (js_error + nat) \<times> world" where
  "sendToFigma randomUUID now sendFault tn args w =
     (if \<not> isFigmaConnected w then (Inl not_connected_error, w)
      else
        let requestId = randomUUID (uuidCalls w);
            p = promiseCount w;
            t = timerCount w;
            w1 = w\<lparr>uuidCalls := Suc (uuidCalls w), promiseCount := Suc p,
                   timers := timers w @ [(t, requestId, p)], timerCount := Suc t\<rparr>;
            w2 = w1\<lparr>pendingRequests :=
                   AList.update requestId
                     \<lparr>id_pr = requestId, toolName = tn, timestamp = now,
                      promise = p, timeout = t\<rparr>
                     (pendingRequests w1)\<rparr>
        in (case sendFault of
              None \<Rightarrow>
                (Inr p, w2\<lparr>sent := sent w2 @
                           [(the (figmaConnection w2), tool_request requestId tn args)]\<rparr>)
            | Some error \<Rightarrow>
                (let w3 = clearTimeout t w2;
                     w4 = w3\<lparr>pendingRequests := AList.delete requestId (pendingRequests w3)\<rparr>
                 in (Inr p,
                     settle p
                       (Rejected (Error (''Failed to send request to Figma: '' @
                                         error_toString error))) w4))))"

text \<open>The callback given to \<open>setTimeout\<close>; a cleared or already fired timer does nothing.\<close>

definition timeout_fires :: "nat \<Rightarrow> world \<Rightarrow> world" where
  "timeout_fires t w =
     (case map_of (timers w) t of
        None \<Rightarrow> w
      | Some (requestId, p) \<Rightarrow>
          settle p (Rejected timeout_error)
            (w\<lparr>timers := AList.delete t (timers w),
               pendingRequests := AList.delete requestId (pendingRequests w)\<rparr>))"


definition disconnected_error :: js_error where
  "disconnected_error = Error ''Figma plugin disconnected''"

text \<open>
  \<open>Map.get\<close> and \<open>Map.delete\<close> with a key of type \<open>any\<close>: the keys of the table are
  strings, so only a string can be found.
\<close>

fun pending_get :: "any \<Rightarrow> (string \<times> PendingRequest) list \<Rightarrow> PendingRequest option" where
  "pending_get (Some (JStr k)) m = map_of m k"
| "pending_get v m = None"

fun pending_delete ::
  "any \<Rightarrow> (string \<times> PendingRequest) list \<Rightarrow> (string \<times> PendingRequest) list" where
  "pending_delete (Some (JStr k)) m = AList.delete k m"
| "pending_delete v m = m"

text \<open>
  \<open>handleFigmaResponse\<close>. The first component of the result is the error the function
  throws, if it throws: reading \<open>response.id\<close> of \<open>null\<close>, rendering for the log an
  \<open>id\<close> that is not in the table and has no string form, or rendering an \<open>error\<close>
  field that has no string form, which happens after the entry has been deleted.
\<close>

definition handleFigmaResponse :: "json \<Rightarrow> world \<Rightarrow> js_error option \<times> world" where
  "handleFigmaResponse response w =
     (case get_prop (Some response) ''id'' of
        Inl e \<Rightarrow> (Some e, w)
      | Inr rid \<Rightarrow>
          (case pending_get rid (pendingRequests w) of
             None \<Rightarrow>
               (case toStr rid of
                  Inl e \<Rightarrow> (Some e, w)
                | Inr logged \<Rightarrow> (None, w))
           | Some pending \<Rightarrow>
               (let w1 = clearTimeout (timeout pending) w;
                    w2 = w1\<lparr>pendingRequests := pending_delete rid (pendingRequests w1)\<rparr>
                in if truthy (own_prop response ''success'')
                   then (None, settle (promise pending) (Resolved (own_prop response ''data'')) w2)
                   else (case toStr (own_prop response ''error'') of
                           Inl e \<Rightarrow> (Some e, w2)
                         | Inr s \<Rightarrow>
                             (None,
                              settle (promise pending)
                                (Rejected (Error (if truthy (own_prop response ''error'') then s
                                                  else ''Unknown error from Figma'')))
                                w2)))))"

section \<open>The WebSocket server\<close>

definition welcome_frame :: json where
  "welcome_frame = JObj [(''type'', JStr ''welcome''), (''message'', JStr ''Connected to MCP server'')]"

definition on_connection :: "nat \<Rightarrow> world \<Rightarrow> world" where
  "on_connection ws w =
     w\<lparr>figmaConnection := Some ws, isConnected := True, sent := sent w @ [(ws, welcome_frame)]\<rparr>"

text \<open>
  The \<open>message\<close> handler. \<open>parsed\<close> is the value of \<open>JSON.parse(message.toString())\<close>,
  \<open>None\<close> when that throws. Everything thrown in the body is caught and logged, so the
  handler returns the state as the body left it. The \<open>event\<close> branch and the last branch
  only log.
\<close>

definition on_message :: "json option \<Rightarrow> world \<Rightarrow> world" where
  "on_message parsed w =
     (case parsed of
        None \<Rightarrow> w
      | Some data \<Rightarrow>
          (case get_prop (Some data) ''type'' of
             Inl e \<Rightarrow> w
           | Inr ty \<Rightarrow>
               (case toStr ty of
                  Inl e \<Rightarrow> w
                | Inr logged \<Rightarrow>
                    if ty = Some (JStr ''tool_response'') then snd (handleFigmaResponse data w)
                    else if ty = Some (JStr ''event'') then w
                    else w)))"

text \<open>
  The \<open>close\<close> handler. Its loop deletes only the entry it is visiting, so it visits every
  entry that is in the table when it starts, in insertion order.
\<close>

fun reject_pending :: "(string \<times> PendingRequest) list \<Rightarrow> world \<Rightarrow> world" where
  "reject_pending [] w = w"
| "reject_pending ((k, pending) # rest) w =
     reject_pending rest
       (let w1 = clearTimeout (timeout pending) w;
            w2 = settle (promise pending) (Rejected disconnected_error) w1
        in w2\<lparr>pendingRequests := AList.delete k (pendingRequests w2)\<rparr>)"

definition on_close :: "world \<Rightarrow> world" where
  "on_close w =
     (let w1 = w\<lparr>figmaConnection := None, isConnected := False\<rparr>
      in reject_pending (pendingRequests w1) w1)"

section \<open>The MCP tool handlers\<close>

text \<open>
  The handlers of \<open>src/src/index.ts\<close>, the server with the one tool \<open>ping\<close>. The names
  of the tools returned by its \<open>ListTools\<close> handler:
\<close>

definition listTools :: "string list" where
  "listTools = [''ping'']"

text \<open>A tool result: the content items as pairs of \<open>type\<close> and \<open>text\<close>, and \<open>isError\<close> if set.\<close>

record CallToolResult =
  content :: "(string \<times> string) list"
  isError :: "bool option"

definition error_result :: "string \<Rightarrow> string \<Rightarrow> CallToolResult" where
  "error_result name errorMessage =
     \<lparr>content = [(''text'', ''Error executing tool '' @ [CHR 0x22] @ name @ [CHR 0x22] @
                            '': '' @ errorMessage)],
      isError = Some True\<rparr>"

text \<open>\<open>`${v.k}`\<close> inside a template literal.\<close>

definition template_prop :: "any \<Rightarrow> string \<Rightarrow> js_error + string" where
  "template_prop v k = (case get_prop v k of Inl e \<Rightarrow> Inl e | Inr x \<Rightarrow> toStr x)"

text \<open>The text of a successful ping; the first line starts with U+1F3D3 in UTF-8.\<close>

definition ping_text :: "json \<Rightarrow> any \<Rightarrow> js_error + string" where
  "ping_text message result =
     (case toStr_json message of Inl e \<Rightarrow> Inl e | Inr m \<Rightarrow>
      (case template_prop result ''message'' of Inl e \<Rightarrow> Inl e | Inr rm \<Rightarrow>
       (case template_prop result ''timestamp'' of Inl e \<Rightarrow> Inl e | Inr rt \<Rightarrow>
        (case template_prop result ''figmaVersion'' of Inl e \<Rightarrow> Inl e | Inr rv \<Rightarrow>
           Inr ([CHR 0xF0, CHR 0x9F, CHR 0x8F, CHR 0x93] @
                '' PONG! Full round-trip successful!'' @ [CHR 0x0A, CHR 0x0A] @
                ''Your message: '' @ [CHR 0x22] @ m @ [CHR 0x22] @ [CHR 0x0A] @
                ''Figma response: '' @ rm @ [CHR 0x0A] @
                ''Figma timestamp: '' @ rt @ [CHR 0x0A] @
                ''Figma version: '' @ rv @ [CHR 0x0A] @
                ''MCP Server: figma-mcp-server v1.0.0'')))))"

text \<open>
  The \<open>CallTool\<close> handler up to its \<open>await\<close>: either it has returned already, or it waits
  for the promise of \<open>sendToFigma\<close>, holding \<open>message\<close>.
\<close>

datatype progress = Returned CallToolResult | Awaiting nat json

definition callTool_begin ::
  "(nat \<Rightarrow> string) \<Rightarrow> nat \<Rightarrow> js_error option \<Rightarrow> string \<Rightarrow> any \<Rightarrow> world
     \<Rightarrow> progress \<times> world" where
  "callTool_begin randomUUID now sendFault name args w =
     (if name = ''ping'' then
        (let message = or_else (opt_prop args ''message'') (JStr ''Hello from Claude Desktop!'')
         in (case sendToFigma randomUUID now sendFault ''ping'' (JObj [(''message'', message)]) w of
               (Inl error, w') \<Rightarrow> (Returned (error_result name (error_message error)), w')
             | (Inr p, w') \<Rightarrow> (Awaiting p message, w')))
      else (Returned (error_result name (''Unknown tool: '' @ name)), w))"

text \<open>The rest of the handler, run when the awaited promise is settled with \<open>out\<close>.\<close>

definition callTool_resume :: "string \<Rightarrow> json \<Rightarrow> outcome \<Rightarrow> CallToolResult" where
  "callTool_resume name message out =
     (case out of
        Rejected error \<Rightarrow> error_result name (error_message error)
      | Resolved result \<Rightarrow>
          (case ping_text message result of
             Inl error \<Rightarrow> error_result name (error_message error)
           | Inr txt \<Rightarrow> \<lparr>content = [(''text'', txt)], isError = None\<rparr>))"

text \<open>The handler from call to return, for the outcome \<open>out\<close> its promise is settled with.\<close>

definition callTool ::
  "(nat \<Rightarrow> string) \<Rightarrow> nat \<Rightarrow> js_error option \<Rightarrow> string \<Rightarrow> any \<Rightarrow> world \<Rightarrow> outcome
     \<Rightarrow> CallToolResult" where
  "callTool randomUUID now sendFault name args w out =
     (case fst (callTool_begin randomUUID now sendFault name args w) of
        Returned r \<Rightarrow> r
      | Awaiting p message \<Rightarrow> callTool_resume name message out)"

section \<open>Runs of the server\<close>

text \<open>
  What can happen to the server: a plugin connects, a frame arrives, a socket closes, a
  socket reports an error (which is only logged), a timer fires, the library changes the
  \<open>readyState\<close> of a socket, a tool is called.
\<close>

datatype event =
    Connection nat
  | Message nat "json option"
  | Close nat
  | SocketError nat
  | TimerFires nat
  | Ready nat ReadyState
  | CallTool string any nat "js_error option"

fun step :: "(nat \<Rightarrow> string) \<Rightarrow> event \<Rightarrow> world \<Rightarrow> world" where
  "step randomUUID (Connection ws) w = on_connection ws w"
| "step randomUUID (Message ws parsed) w = on_message parsed w"
| "step randomUUID (Close ws) w = on_close w"
| "step randomUUID (SocketError ws) w = w"
| "step randomUUID (TimerFires t) w = timeout_fires t w"
| "step randomUUID (Ready ws rs) w = w\<lparr>readyState := (readyState w)(ws := rs)\<rparr>"
| "step randomUUID (CallTool name args now sendFault) w =
     snd (callTool_begin randomUUID now sendFault name args w)"

fun run :: "(nat \<Rightarrow> string) \<Rightarrow> event list \<Rightarrow> world \<Rightarrow> world" where
  "run randomUUID [] w = w"
| "run randomUUID (e # es) w = run randomUUID es (step randomUUID e w)"

text \<open>
  The state is consistent when timer handles, the promises held by armed timers, the
  settled promises and the table keys are each free of repetition, handles are below
  their counters, no armed timer holds a settled promise, and the timer of every table
  entry is armed for that entry's key and promise.
\<close>

definition consistent :: "world \<Rightarrow> bool" where
  "consistent w \<longleftrightarrow>
     distinct (map fst (timers w)) \<and>
     distinct (map (snd \<circ> snd) (timers w)) \<and>
     distinct (map fst (settled w)) \<and>
     distinct (map fst (pendingRequests w)) \<and>
     (\<forall>(t, rid, p) \<in> set (timers w).
        t < timerCount w \<and> p < promiseCount w \<and> p \<notin> fst ` set (settled w)) \<and>
     (\<forall>(p, out) \<in> set (settled w). p < promiseCount w) \<and>
     (\<forall>(k, e) \<in> set (pendingRequests w). (timeout e, k, promise e) \<in> set (timers w))"

text \<open>Sample inputs: a sequence of identifiers without repetition, sockets that are open.\<close>

definition sample_uuid :: "nat \<Rightarrow> string" where
  "sample_uuid n = ''uuid-'' @ replicate n CHR ''x''"

definition all_open :: "nat \<Rightarrow> ReadyState" where
  "all_open ws = OPEN"

text \<open>A result envelope that reports success with payload \<open>d\<close> for request \<open>rid\<close>.\<close>

definition result_envelope :: "string \<Rightarrow> json \<Rightarrow> json" where
  "result_envelope rid d =
     JObj [(''id'', JStr rid), (''type'', JStr ''tool_response''),
           (''success'', JBool True), (''data'', d)]"

text \<open>
  A parsed frame counts as a result envelope when the \<open>message\<close> handler routes it to
  \<open>handleFigmaResponse\<close>: reading its \<open>type\<close> does not throw and gives \<open>"tool_response"\<close>.
\<close>

definition is_result_envelope :: "json option \<Rightarrow> bool" where
  "is_result_envelope parsed =
     (case parsed of
        None \<Rightarrow> False
      | Some data \<Rightarrow> get_prop (Some data) ''type'' = Inr (Some (JStr ''tool_response'')))"

text \<open>
  A batch of \<open>ping\<close> calls, each with its arguments and the clock reading at the call,
  none of which meets a send fault; and the delivery, in the order given, of one
  successful result per listed call, the \<open>i\<close>-th call having drawn the UUID number
  \<open>base + i\<close> and being answered with payload \<open>d i\<close>.
\<close>

definition ping_calls :: "(any \<times> nat) list \<Rightarrow> event list" where
  "ping_calls calls = map (\<lambda>(args, now). CallTool ''ping'' args now None) calls"

definition deliveries ::
  "(nat \<Rightarrow> string) \<Rightarrow> nat \<Rightarrow> nat \<Rightarrow> (nat \<Rightarrow> json) \<Rightarrow> nat list \<Rightarrow> event list" where
  "deliveries randomUUID ws base d order =
     map (\<lambda>i. Message ws (Some (result_envelope (randomUUID (base + i)) (d i)))) order"

text \<open>Sample states: one plugin connected; two calls pending; a second plugin has connected
  after the first and a call is pending.\<close>

definition connected_idle :: world where
  "connected_idle = run sample_uuid [Connection 1] (startup all_open)"

definition two_pending_run :: "event list" where
  "two_pending_run =
     [Connection 1, CallTool ''ping'' None 10 None, CallTool ''ping'' None 11 None]"

definition two_pending :: world where
  "two_pending = run sample_uuid two_pending_run (startup all_open)"

definition superseded :: world where
  "superseded =
     run sample_uuid [Connection 1, Connection 2, CallTool ''ping'' None 10 None]
       (startup all_open)"

definition closing :: world where
  "closing = run sample_uuid [Connection 1, Ready 1 CLOSING] (startup all_open)"



definition sample_run :: "event list" where
  "sample_run =
     [Connection 1, CallTool ''ping'' None 10 None,
      Message 1 (Some (result_envelope ''uuid-'' (JStr ''pong''))),
      Message 1 (Some (result_envelope ''uuid-'' (JStr ''again''))),
      TimerFires 0, Close 1]"

text \<open>A result envelope that reports failure with the error text \<open>msg\<close>.\<close>

definition failure_envelope :: "string \<Rightarrow> string \<Rightarrow> json" where
  "failure_envelope rid msg =
     JObj [(''id'', JStr rid), (''type'', JStr ''tool_response''),
           (''success'', JBool False), (''error'', JStr msg)]"

text \<open>
  More sample inputs: one call pending; a failure result for it whose \<open>error\<close> is an
  object with an own \<open>toString\<close> property; a UUID source that repeats itself.
\<close>

definition one_pending :: world where
  "one_pending =
     run sample_uuid [Connection 1, CallTool ''ping'' None 10 None] (startup all_open)"

definition unprintable_failure :: json where
  "unprintable_failure =
     JObj [(''id'', JStr ''uuid-''), (''type'', JStr ''tool_response''),
           (''success'', JBool False), (''error'', JObj [(''toString'', JNum ''1'')])]"


section \<open>The later server: twelve tools\<close>

text \<open>
  The repository holds a later revision of the server (in \<open>src/unnamed/part_000\<close>). Its
  bridge and WebSocket server are the ones above; its \<open>ListTools\<close> handler lists twelve
  tools and its \<open>CallTool\<close> handler has one branch for each. The handler is modelled up to
  the \<open>await\<close> of each branch: it has returned a result (\<open>Inl\<close>), or it waits for the promise
  of \<open>sendToFigma\<close> (\<open>Inr\<close>).
\<close>

definition listTools_part_000 :: "string list" where
  "listTools_part_000 =
     [''ping'', ''get_selection'', ''set_selection'', ''scan_frame'', ''find_nodes'',
      ''get_node_properties'', ''get_text_content'', ''set_text_content'',
      ''create_text_node'', ''rename_node'', ''set_node_visibility'', ''set_node_lock'']"

text \<open>
  An object literal whose members may be \<open>undefined\<close>, as \<open>JSON.stringify\<close>, its only
  reader, sees it: members that are \<open>undefined\<close> are left out.
\<close>

fun defined_props :: "(string \<times> any) list \<Rightarrow> (string \<times> json) list" where
  "defined_props [] = []"
| "defined_props ((k, None) # kvs) = defined_props kvs"
| "defined_props ((k, Some v) # kvs) = (k, v) # defined_props kvs"

text \<open>\<open>!nodeIds || !Array.isArray(nodeIds) || nodeIds.length === 0\<close>\<close>

definition missing_nodeIds :: "any \<Rightarrow> bool" where
  "missing_nodeIds nodeIds =
     (\<not> truthy nodeIds \<or>
      (case nodeIds of Some (JArr xs) \<Rightarrow> False | _ \<Rightarrow> True) \<or>
      (case nodeIds of Some (JArr xs) \<Rightarrow> xs = [] | _ \<Rightarrow> False))"

text \<open>The result a branch returns when it finds its arguments wanting.\<close>

definition argument_error :: "string \<Rightarrow> CallToolResult" where
  "argument_error txt = \<lparr>content = [(''text'', txt)], isError = Some True\<rparr>"

text \<open>
  \<open>await sendToFigma(tn, {...})\<close> inside the handler's \<open>try\<close>: a throw of \<open>sendToFigma\<close>
  lands in the \<open>catch\<close>, which returns the error result.
\<close>

definition await_sendToFigma ::
  "(nat \<Rightarrow> string) \<Rightarrow> nat \<Rightarrow> js_error option \<Rightarrow> string \<Rightarrow> string \<Rightarrow> (string \<times> any) list
     \<Rightarrow> world \<Rightarrow> (CallToolResult + nat) \<times> world" where
  "await_sendToFigma randomUUID now sendFault name tn members w =
     (case sendToFigma randomUUID now sendFault tn (JObj (defined_props members)) w of
        (Inl error, w') \<Rightarrow> (Inl (error_result name (error_message error)), w')
      | (Inr p, w') \<Rightarrow> (Inr p, w'))"

text \<open>
  The handler up to its \<open>await\<close>. \<open>mathMin\<close> is the library function \<open>Math.min\<close>, which
  throws when an argument cannot be converted to a number.
\<close>

definition callTool_begin_part_000 ::
  "(nat \<Rightarrow> string) \<Rightarrow> nat \<Rightarrow> js_error option \<Rightarrow> (json \<Rightarrow> json \<Rightarrow> js_error + json)
     \<Rightarrow> string \<Rightarrow> any \<Rightarrow> world \<Rightarrow> (CallToolResult + nat) \<times> world" where
  "callTool_begin_part_000 randomUUID now sendFault mathMin name args w =
     (let arg = opt_prop args;
          send = await_sendToFigma randomUUID now sendFault name
      in
      if name = ''ping'' then
        send ''ping''
          [(''message'', Some (or_else (arg ''message'') (JStr ''Hello from Claude Desktop!'')))] w
      else if name = ''get_selection'' then
        send ''get_selection''
          [(''includeChildren'', Some (or_else (arg ''includeChildren'') (JBool False)))] w
      else if name = ''set_selection'' then
        (if missing_nodeIds (arg ''nodeIds'')
         then (Inl (argument_error
                 ''Error: nodeIds parameter is required and must be a non-empty array of node IDs.''),
               w)
         else send ''set_selection'' [(''nodeIds'', arg ''nodeIds'')] w)
      else if name = ''scan_frame'' then
        (case mathMin (or_else (arg ''depth'') (JNum ''1'')) (JNum ''5'') of
           Inl error \<Rightarrow> (Inl (error_result name (error_message error)), w)
         | Inr depth \<Rightarrow>
             send ''scan_frame''
               [(''frameId'', arg ''frameId''), (''depth'', Some depth),
                (''filter'', arg ''filter'')] w)
      else if name = ''find_nodes'' then
        send ''find_nodes''
          [(''searchTerm'', arg ''searchTerm''), (''nodeType'', arg ''nodeType''),
           (''visibleOnly'', Some (or_else (arg ''visibleOnly'') (JBool False))),
           (''searchScope'', Some (or_else (arg ''searchScope'') (JStr ''page'')))] w
      else if name = ''get_node_properties'' then
        (if missing_nodeIds (arg ''nodeIds'')
         then (Inl (argument_error
                 ''Error: nodeIds parameter is required and must be a non-empty array.''), w)
         else send ''get_node_properties'' [(''nodeIds'', arg ''nodeIds'')] w)
      else if name = ''get_text_content'' then
        send ''get_text_content'' [(''nodeIds'', arg ''nodeIds'')] w
      else if name = ''set_text_content'' then
        (if \<not> truthy (arg ''nodeId'') \<or> \<not> truthy (arg ''text'')
         then (Inl (argument_error ''Error: Both nodeId and text parameters are required.''), w)
         else send ''set_text_content'' [(''nodeId'', arg ''nodeId''), (''text'', arg ''text'')] w)
      else if name = ''create_text_node'' then
        (if \<not> truthy (arg ''text'')
         then (Inl (argument_error ''Error: text parameter is required.''), w)
         else send ''create_text_node''
                [(''text'', arg ''text''),
                 (''x'', Some (or_else (arg ''x'') (JNum ''0''))),
                 (''y'', Some (or_else (arg ''y'') (JNum ''0''))),
                 (''fontSize'', Some (or_else (arg ''fontSize'') (JNum ''16''))),
                 (''fontFamily'', Some (or_else (arg ''fontFamily'') (JStr ''Inter''))),
                 (''fontStyle'', Some (or_else (arg ''fontStyle'') (JStr ''Regular''))),
                 (''parentId'', arg ''parentId'')] w)
      else if name = ''rename_node'' then
        (if missing_nodeIds (arg ''nodeIds'') \<or> \<not> truthy (arg ''newName'')
         then (Inl (argument_error
                 ''Error: Both nodeIds (array) and newName (string) parameters are required.''),
               w)
         else send ''rename_node''
                [(''nodeIds'', arg ''nodeIds''), (''newName'', arg ''newName'')] w)
      else if name = ''set_node_visibility'' then
        (if missing_nodeIds (arg ''nodeIds'') \<or> arg ''visible'' = None
         then (Inl (argument_error
                 ''Error: Both nodeIds (array) and visible (boolean) parameters are required.''),
               w)
         else send ''set_node_visibility''
                [(''nodeIds'', arg ''nodeIds''), (''visible'', arg ''visible'')] w)
      else if name = ''set_node_lock'' then
        (if missing_nodeIds (arg ''nodeIds'') \<or> arg ''locked'' = None
         then (Inl (argument_error
                 ''Error: Both nodeIds (array) and locked (boolean) parameters are required.''),
               w)
         else send ''set_node_lock''
                [(''nodeIds'', arg ''nodeIds''), (''locked'', arg ''locked'')] w)
      else (Inl (error_result name (''Unknown tool: '' @ name)), w))"

text \<open>A sample \<open>Math.min\<close> that never throws and returns its second argument.\<close>

definition sample_min :: "json \<Rightarrow> json \<Rightarrow> js_error + json" where
  "sample_min a b = Inr b"

section \<open>Facts about the table operations\<close>

lemma set_update_subset: "set (AList.update k v al) \<subseteq> insert (k, v) (set al)"
  by (induction al) auto

lemma set_delete: "set (AList.delete k al) = {x \<in> set al. fst x \<noteq> k}"
  by (auto simp add: AList.delete_eq)

lemma pending_get_empty: "pending_get rid [] = None"
  by (cases "(rid, []::(string \<times> PendingRequest) list)" rule: pending_get.cases) simp_all

lemma pending_get_SomeD:
  "pending_get rid m = Some e \<Longrightarrow> \<exists>k. rid = Some (JStr k) \<and> map_of m k = Some e"
  by (cases "(rid, m)" rule: pending_get.cases) simp_all

section \<open>The close loop in closed form\<close>

lemma reject_pending_table:
  "pendingRequests (reject_pending es w) =
     filter (\<lambda>x. fst x \<notin> fst ` set es) (pendingRequests w)"
proof (induction es arbitrary: w)
  case Nil
  then show ?case by simp
next
  case (Cons a es)
  obtain k pending where a: "a = (k, pending)" by (cases a)
  have "filter (\<lambda>x. k \<noteq> fst x \<and> fst x \<notin> fst ` set es) xs =
        filter (\<lambda>x. fst x \<noteq> k \<and> fst x \<notin> fst ` set es) xs" for xs :: "(string \<times> PendingRequest) list"
    by (rule filter_cong[OF refl]) auto
  then show ?case
    unfolding a
    by (simp add: Cons.IH Let_def clearTimeout_def settle_def AList.delete_eq split_beta)
qed

lemma reject_pending_timers:
  "timers (reject_pending es w) =
     filter (\<lambda>x. fst x \<notin> (timeout \<circ> snd) ` set es) (timers w)"
proof (induction es arbitrary: w)
  case Nil
  then show ?case by simp
next
  case (Cons a es)
  obtain k pending where a: "a = (k, pending)" by (cases a)
  have "filter (\<lambda>x. timeout pending \<noteq> fst x \<and> fst x \<notin> (\<lambda>x. timeout (snd x)) ` set es) xs =
        filter (\<lambda>x. fst x \<noteq> timeout pending \<and> fst x \<notin> (\<lambda>x. timeout (snd x)) ` set es) xs"
    for xs :: "(nat \<times> string \<times> nat) list"
    by (rule filter_cong[OF refl]) auto
  then show ?case
    unfolding a
    by (simp add: Cons.IH Let_def clearTimeout_def settle_def AList.delete_eq split_beta)
qed

lemma reject_pending_settled:
  "settled (reject_pending es w) =
     settled w @ map (\<lambda>(k, pending). (promise pending, Rejected disconnected_error)) es"
proof (induction es arbitrary: w)
  case Nil
  then show ?case by simp
next
  case (Cons a es)
  obtain k pending where a: "a = (k, pending)" by (cases a)
  show ?case
    unfolding a
    by (simp add: Cons.IH Let_def clearTimeout_def settle_def)
qed

lemma reject_pending_frame:
  "figmaConnection (reject_pending es w) = figmaConnection w \<and>
   isConnected (reject_pending es w) = isConnected w \<and>
   readyState (reject_pending es w) = readyState w \<and>
   sent (reject_pending es w) = sent w \<and>
   uuidCalls (reject_pending es w) = uuidCalls w \<and>
   promiseCount (reject_pending es w) = promiseCount w \<and>
   timerCount (reject_pending es w) = timerCount w"
proof (induction es arbitrary: w)
  case Nil
  then show ?case by simp
next
  case (Cons a es)
  obtain k pending where a: "a = (k, pending)" by (cases a)
  show ?case
    unfolding a
    by (simp add: Cons.IH Let_def clearTimeout_def settle_def)
qed

lemma on_close_table: "pendingRequests (on_close w) = []"
  by (simp add: on_close_def Let_def reject_pending_table filter_empty_conv)

lemma handleFigmaResponse_empty_table:
  "pendingRequests w = [] \<Longrightarrow> snd (handleFigmaResponse response w) = w"
  by (simp add: handleFigmaResponse_def pending_get_empty split: sum.splits)

lemma on_message_empty_table:
  "pendingRequests w = [] \<Longrightarrow> on_message parsed w = w"
  by (simp add: on_message_def handleFigmaResponse_empty_table split: option.splits sum.splits)

section \<open>Consistency is kept by every handler\<close>

lemma consistent_retire:
  assumes c: "consistent w" and m: "(t, rid, p) \<in> set (timers w)"
    and T: "timers w' = AList.delete t (timers w)"
    and P: "pendingRequests w' = AList.delete rid (pendingRequests w)"
    and S: "settled w' = settled w \<or> (\<exists>out. settled w' = settled w @ [(p, out)])"
    and TC: "timerCount w' = timerCount w"
    and PC: "promiseCount w' = promiseCount w"
  shows "consistent w'"
proof -
  have d1: "distinct (map fst (timers w))" and d2: "distinct (map (snd \<circ> snd) (timers w))"
    and d3: "distinct (map fst (settled w))" and d4: "distinct (map fst (pendingRequests w))"
    and b5: "\<forall>(t, rid, p) \<in> set (timers w).
               t < timerCount w \<and> p < promiseCount w \<and> p \<notin> fst ` set (settled w)"
    and b6: "\<forall>(p, out) \<in> set (settled w). p < promiseCount w"
    and b7: "\<forall>(k, e) \<in> set (pendingRequests w). (timeout e, k, promise e) \<in> set (timers w)"
    using c unfolding consistent_def by simp_all
  have key: "rid' = rid" if "(t, rid', p') \<in> set (timers w)" for rid' p'
    using eq_key_imp_eq_value[OF d1 that m] by simp
  have prom: "t' = t" if "(t', rid', p) \<in> set (timers w)" for t' rid'
  proof -
    have "inj_on (snd \<circ> snd) (set (timers w))" using d2 by (simp add: distinct_map)
    from inj_onD[OF this _ that m] show ?thesis by simp
  qed
  have fresh: "p \<notin> fst ` set (settled w)" and plt: "p < promiseCount w" using b5 m by auto
  have e1: "distinct (map fst (timers w'))" unfolding T using d1 by (rule AList.distinct_delete)
  have e2: "distinct (map (snd \<circ> snd) (timers w'))"
    unfolding T using d2 by (simp add: AList.delete_eq distinct_map_filter)
  have e3: "distinct (map fst (settled w'))" using S d3 fresh by auto
  have e4: "distinct (map fst (pendingRequests w'))"
    unfolding P using d4 by (rule AList.distinct_delete)
  have e5: "\<forall>(t', rid', p') \<in> set (timers w').
              t' < timerCount w' \<and> p' < promiseCount w' \<and> p' \<notin> fst ` set (settled w')"
  proof (clarify)
    fix t' rid' p'
    assume a: "(t', rid', p') \<in> set (timers w')"
    then have in_w: "(t', rid', p') \<in> set (timers w)" and ne: "t' \<noteq> t"
      unfolding T by (auto simp add: set_delete)
    from b5 in_w have x: "t' < timerCount w" "p' < promiseCount w" "p' \<notin> fst ` set (settled w)"
      by auto
    have "p' \<noteq> p" using prom in_w ne by auto
    then have "p' \<notin> fst ` set (settled w')" using S x(3) by auto
    then show "t' < timerCount w' \<and> p' < promiseCount w' \<and> p' \<notin> fst ` set (settled w')"
      using x TC PC by simp
  qed
  have e6: "\<forall>(p', out) \<in> set (settled w'). p' < promiseCount w'"
    using S b6 plt PC by auto
  have e7: "\<forall>(k, e) \<in> set (pendingRequests w'). (timeout e, k, promise e) \<in> set (timers w')"
  proof (clarify)
    fix k e
    assume "(k, e) \<in> set (pendingRequests w')"
    then have in_w: "(k, e) \<in> set (pendingRequests w)" and ne: "k \<noteq> rid"
      unfolding P by (auto simp add: set_delete)
    from b7 in_w have tm: "(timeout e, k, promise e) \<in> set (timers w)" by auto
    have "timeout e \<noteq> t" using key tm ne by auto
    then show "(timeout e, k, promise e) \<in> set (timers w')"
      unfolding T using tm by (simp add: set_delete)
  qed
  show ?thesis unfolding consistent_def using e1 e2 e3 e4 e5 e6 e7 by blast
qed

lemma consistent_register:
  assumes c: "consistent w"
    and T: "timers w' = timers w @ [(timerCount w, rid, promiseCount w)]"
    and P: "pendingRequests w' = AList.update rid e (pendingRequests w)"
    and E: "timeout e = timerCount w" "promise e = promiseCount w"
    and S: "settled w' = settled w"
    and TC: "timerCount w' = Suc (timerCount w)"
    and PC: "promiseCount w' = Suc (promiseCount w)"
  shows "consistent w'"
proof -
  have d1: "distinct (map fst (timers w))" and d2: "distinct (map (snd \<circ> snd) (timers w))"
    and d3: "distinct (map fst (settled w))" and d4: "distinct (map fst (pendingRequests w))"
    and b5: "\<forall>(t, rid, p) \<in> set (timers w).
               t < timerCount w \<and> p < promiseCount w \<and> p \<notin> fst ` set (settled w)"
    and b6: "\<forall>(p, out) \<in> set (settled w). p < promiseCount w"
    and b7: "\<forall>(k, e) \<in> set (pendingRequests w). (timeout e, k, promise e) \<in> set (timers w)"
    using c unfolding consistent_def by simp_all
  have t_fresh: "timerCount w \<notin> fst ` set (timers w)" using b5 by fastforce
  have p_fresh: "promiseCount w \<notin> (snd \<circ> snd) ` set (timers w)" using b5 by fastforce
  have s_fresh: "promiseCount w \<notin> fst ` set (settled w)" using b6 by fastforce
  have e1: "distinct (map fst (timers w'))" unfolding T using d1 t_fresh by simp
  have e2: "distinct (map (snd \<circ> snd) (timers w'))" unfolding T using d2 p_fresh by simp
  have e3: "distinct (map fst (settled w'))" unfolding S by (rule d3)
  have e4: "distinct (map fst (pendingRequests w'))"
    unfolding P using d4 by (rule AList.distinct_update)
  have e5: "\<forall>(t', rid', p') \<in> set (timers w').
              t' < timerCount w' \<and> p' < promiseCount w' \<and> p' \<notin> fst ` set (settled w')"
    unfolding T S TC PC using b5 s_fresh by (auto simp add: less_Suc_eq)
  have e6: "\<forall>(p', out) \<in> set (settled w'). p' < promiseCount w'"
    unfolding S PC using b6 by (auto simp add: less_Suc_eq)
  have e7: "\<forall>(k, x) \<in> set (pendingRequests w'). (timeout x, k, promise x) \<in> set (timers w')"
  proof (clarify)
    fix k x
    assume "(k, x) \<in> set (pendingRequests w')"
    then have "(k, x) = (rid, e) \<or> (k, x) \<in> set (pendingRequests w)"
      unfolding P using set_update_subset[of rid e "pendingRequests w"] by auto
    then show "(timeout x, k, promise x) \<in> set (timers w')"
      unfolding T using b7 E by auto
  qed
  show ?thesis unfolding consistent_def using e1 e2 e3 e4 e5 e6 e7 by blast
qed

lemma consistent_frame:
  assumes c: "consistent w"
    and "timers w' = timers w" "pendingRequests w' = pendingRequests w"
    and "settled w' = settled w" "timerCount w' = timerCount w" "promiseCount w' = promiseCount w"
  shows "consistent w'"
  using assms unfolding consistent_def by simp

lemma consistent_timeout_fires:
  assumes c: "consistent w"
  shows "consistent (timeout_fires t w)"
proof (cases "map_of (timers w) t")
  case None
  then show ?thesis using c by (simp add: timeout_fires_def)
next
  case (Some a)
  obtain rid p where a: "a = (rid, p)" by (cases a)
  have m: "(t, rid, p) \<in> set (timers w)" using Some a by (auto dest: map_of_SomeD)
  show ?thesis
    by (rule consistent_retire[OF c m]) (simp_all add: timeout_fires_def settle_def Some a)
qed

lemma consistent_reject_pending:
  "consistent w \<Longrightarrow> set es \<subseteq> set (pendingRequests w) \<Longrightarrow> distinct (map fst es)
     \<Longrightarrow> consistent (reject_pending es w)"
proof (induction es arbitrary: w)
  case Nil
  then show ?case by simp
next
  case (Cons a es)
  obtain k pending where a: "a = (k, pending)" by (cases a)
  define w' where "w' = (let w1 = clearTimeout (timeout pending) w;
            w2 = settle (promise pending) (Rejected disconnected_error) w1
        in w2\<lparr>pendingRequests := AList.delete k (pendingRequests w2)\<rparr>)"
  have "(k, pending) \<in> set (pendingRequests w)" using Cons.prems(2) a by simp
  then have m: "(timeout pending, k, promise pending) \<in> set (timers w)"
    using Cons.prems(1) unfolding consistent_def by auto
  have c': "consistent w'"
    by (rule consistent_retire[OF Cons.prems(1) m])
       (simp_all add: w'_def Let_def clearTimeout_def settle_def)
  have pw': "pendingRequests w' = AList.delete k (pendingRequests w)"
    by (simp add: w'_def Let_def clearTimeout_def settle_def)
  have "k \<notin> fst ` set es" using Cons.prems(3) a by simp
  then have sub: "set es \<subseteq> set (pendingRequests w')"
    unfolding pw' using Cons.prems(2) by (force simp add: set_delete)
  have d: "distinct (map fst es)" using Cons.prems(3) by simp
  have "reject_pending (a # es) w = reject_pending es w'"
    unfolding a w'_def by simp
  then show ?case using Cons.IH[OF c' sub d] by simp
qed

lemma consistent_on_close:
  assumes c: "consistent w"
  shows "consistent (on_close w)"
proof -
  define w1 where "w1 = w\<lparr>figmaConnection := None, isConnected := False\<rparr>"
  have c1: "consistent w1"
    by (rule consistent_frame[OF c]) (simp_all add: w1_def)
  have d: "distinct (map fst (pendingRequests w1))" using c1 unfolding consistent_def by simp
  have "consistent (reject_pending (pendingRequests w1) w1)"
    by (rule consistent_reject_pending[OF c1 subset_refl d])
  then show ?thesis by (simp add: on_close_def Let_def w1_def)
qed

lemma consistent_sendToFigma:
  assumes c: "consistent w"
  shows "consistent (snd (sendToFigma u now sf tn args w))"
proof (cases "isFigmaConnected w")
  case False
  then show ?thesis using c by (simp add: sendToFigma_def)
next
  case True
  define rid where "rid = u (uuidCalls w)"
  define e where "e = \<lparr>id_pr = rid, toolName = tn, timestamp = now,
                      promise = promiseCount w, timeout = timerCount w\<rparr>"
  define w2 where "w2 = w\<lparr>uuidCalls := Suc (uuidCalls w), promiseCount := Suc (promiseCount w),
                   timers := timers w @ [(timerCount w, rid, promiseCount w)],
                   timerCount := Suc (timerCount w),
                   pendingRequests := AList.update rid e (pendingRequests w)\<rparr>"
  have c2: "consistent w2"
    by (rule consistent_register[OF c, where rid = rid and e = e])
       (simp_all add: w2_def e_def)
  show ?thesis
  proof (cases sf)
    case None
    have "consistent (snd (sendToFigma u now None tn args w))"
      by (rule consistent_frame[OF c2])
         (simp_all add: sendToFigma_def True Let_def w2_def e_def rid_def)
    then show ?thesis using None by simp
  next
    case (Some err)
    have m: "(timerCount w, rid, promiseCount w) \<in> set (timers w2)" by (simp add: w2_def)
    have "consistent (snd (sendToFigma u now (Some err) tn args w))"
      by (rule consistent_retire[OF c2 m])
         (simp_all add: sendToFigma_def True Let_def w2_def e_def rid_def clearTimeout_def settle_def)
    then show ?thesis using Some by simp
  qed
qed

lemma handleFigmaResponse_found:
  assumes g: "get_prop (Some response) ''id'' = Inr (Some (JStr k))"
    and m: "map_of (pendingRequests w) k = Some pending"
  shows "timers (snd (handleFigmaResponse response w)) = AList.delete (timeout pending) (timers w)"
    and "pendingRequests (snd (handleFigmaResponse response w)) = AList.delete k (pendingRequests w)"
    and "settled (snd (handleFigmaResponse response w)) = settled w \<or>
         (\<exists>out. settled (snd (handleFigmaResponse response w)) = settled w @ [(promise pending, out)])"
    and "timerCount (snd (handleFigmaResponse response w)) = timerCount w"
    and "promiseCount (snd (handleFigmaResponse response w)) = promiseCount w"
  using assms
  by (simp_all del: get_prop.simps
        add: handleFigmaResponse_def Let_def clearTimeout_def settle_def split: sum.splits)

lemma handleFigmaResponse_not_found:
  assumes g: "get_prop (Some response) ''id'' = Inr (Some (JStr k))"
    and m: "map_of (pendingRequests w) k = None"
  shows "handleFigmaResponse response w = (None, w)"
  using assms
  by (simp del: get_prop.simps add: handleFigmaResponse_def)

lemma handleFigmaResponse_success:
  assumes g: "get_prop (Some response) ''id'' = Inr (Some (JStr k))"
    and m: "map_of (pendingRequests w) k = Some pending"
    and t: "truthy (own_prop response ''success'')"
  shows "settled (snd (handleFigmaResponse response w)) =
           settled w @ [(promise pending, Resolved (own_prop response ''data''))]"
  using assms
  by (simp del: get_prop.simps add: handleFigmaResponse_def Let_def clearTimeout_def settle_def)

lemma handleFigmaResponse_failure:
  assumes g: "get_prop (Some response) ''id'' = Inr (Some (JStr k))"
    and m: "map_of (pendingRequests w) k = Some pending"
    and t: "\<not> truthy (own_prop response ''success'')"
    and r: "toStr (own_prop response ''error'') = Inr s"
  shows "settled (snd (handleFigmaResponse response w)) =
           settled w @ [(promise pending,
                         Rejected (Error (if truthy (own_prop response ''error'') then s
                                          else ''Unknown error from Figma'')))]"
  using assms
  by (simp del: get_prop.simps add: handleFigmaResponse_def Let_def clearTimeout_def settle_def)

lemma consistent_handleFigmaResponse:
  assumes c: "consistent w"
  shows "consistent (snd (handleFigmaResponse response w))"
proof (cases "get_prop (Some response) ''id''")
  case (Inl e)
  then show ?thesis using c by (simp del: get_prop.simps add: handleFigmaResponse_def)
next
  case (Inr rid)
  show ?thesis
  proof (cases "pending_get rid (pendingRequests w)")
    case None
    then show ?thesis
      using c Inr by (simp del: get_prop.simps add: handleFigmaResponse_def split: sum.splits)
  next
    case (Some pending)
    from pending_get_SomeD[OF Some] obtain k where
      k: "rid = Some (JStr k)" "map_of (pendingRequests w) k = Some pending" by auto
    have g: "get_prop (Some response) ''id'' = Inr (Some (JStr k))" using Inr k(1) by simp
    have "(k, pending) \<in> set (pendingRequests w)" using k(2) by (rule map_of_SomeD)
    then have m: "(timeout pending, k, promise pending) \<in> set (timers w)"
      using c unfolding consistent_def by auto
    show ?thesis
      by (rule consistent_retire[OF c m]) (rule handleFigmaResponse_found[OF g k(2)])+
  qed
qed

lemma consistent_on_message:
  "consistent w \<Longrightarrow> consistent (on_message parsed w)"
  by (simp del: get_prop.simps add: on_message_def consistent_handleFigmaResponse
        split: option.splits sum.splits)

lemma snd_callTool_begin:
  "snd (callTool_begin u now sf name args w) =
     (if name = ''ping''
      then snd (sendToFigma u now sf ''ping''
                  (JObj [(''message'',
                          or_else (opt_prop args ''message'') (JStr ''Hello from Claude Desktop!''))]) w)
      else w)"
  by (simp add: callTool_begin_def Let_def split: prod.splits sum.splits)

lemma consistent_step:
  assumes c: "consistent w"
  shows "consistent (step u ev w)"
proof (cases ev)
  case (CallTool name args now sf)
  show ?thesis
    unfolding CallTool step.simps snd_callTool_begin
    using consistent_sendToFigma[OF c] c by simp
next
  case (Ready ws rs)
  show ?thesis
    by (rule consistent_frame[OF c]) (simp_all add: Ready)
next
  case (Connection ws)
  show ?thesis
    by (rule consistent_frame[OF c]) (simp_all add: Connection on_connection_def)
next
  case (Message ws parsed)
  show ?thesis using c by (simp add: Message consistent_on_message)
next
  case (Close ws)
  show ?thesis using c by (simp add: Close consistent_on_close)
next
  case (TimerFires t)
  show ?thesis using c by (simp add: TimerFires consistent_timeout_fires)
next
  case (SocketError ws)
  show ?thesis using c by (simp add: SocketError)
qed

lemma consistent_run: "consistent w \<Longrightarrow> consistent (run u evs w)"
  by (induction evs arbitrary: w) (simp_all add: consistent_step)

lemma consistent_startup: "consistent (startup rs)"
  by (simp add: consistent_def startup_def)

lemma settled_once: "distinct (map fst (settled (run u evs (startup rs))))"
  using consistent_run[OF consistent_startup, of u evs rs] by (simp add: consistent_def)

lemma consistent_pending_armed:
  assumes c: "consistent w" and m: "(k, e) \<in> set (pendingRequests w)"
  shows "map_of (timers w) (timeout e) = Some (k, promise e)"
    and "promise e \<notin> fst ` set (settled w)"
proof -
  have d1: "distinct (map fst (timers w))"
    and b5: "\<forall>(t, rid, p) \<in> set (timers w).
               t < timerCount w \<and> p < promiseCount w \<and> p \<notin> fst ` set (settled w)"
    and b7: "\<forall>(k, e) \<in> set (pendingRequests w). (timeout e, k, promise e) \<in> set (timers w)"
    using c unfolding consistent_def by simp_all
  have t: "(timeout e, k, promise e) \<in> set (timers w)" using b7 m by auto
  show "map_of (timers w) (timeout e) = Some (k, promise e)" using d1 t by simp
  show "promise e \<notin> fst ` set (settled w)" using b5 t by auto
qed

lemma timeout_fires_armed:
  assumes "map_of (timers w) t = Some (k, p)"
  shows "map_of (pendingRequests (timeout_fires t w)) k = None"
    and "map_of (timers (timeout_fires t w)) t = None"
    and "settled (timeout_fires t w) = settled w @ [(p, Rejected timeout_error)]"
    and "timeout_fires t (timeout_fires t w) = timeout_fires t w"
  using assms by (simp_all add: timeout_fires_def settle_def AList.delete_conv')

section \<open>Batches of calls and deliveries\<close>






lemma map_of_filter_out:
  "t \<in> S \<Longrightarrow> map_of (filter (\<lambda>x. fst x \<notin> S) xs) t = None"
  by (induction xs) auto

section \<open>The sample states, evaluated\<close>

lemmas eval_defs = startup_def all_open_def sample_uuid_def on_connection_def callTool_begin_def
  sendToFigma_def isFigmaConnected_def Let_def clearTimeout_def settle_def tool_request_def
  welcome_frame_def on_close_def disconnected_error_def result_envelope_def on_message_def
  handleFigmaResponse_def timeout_fires_def timeout_error_def not_connected_error_def
  error_result_def callTool_def callTool_resume_def ping_text_def template_prop_def
  ping_calls_def deliveries_def listTools_def is_result_envelope_def

lemma two_pending_eval:
  "pendingRequests two_pending =
     [(''uuid-'', \<lparr>id_pr = ''uuid-'', toolName = ''ping'', timestamp = 10, promise = 0, timeout = 0\<rparr>),
      (''uuid-x'', \<lparr>id_pr = ''uuid-x'', toolName = ''ping'', timestamp = 11, promise = 1, timeout = 1\<rparr>)]"
  "timers two_pending = [(0, ''uuid-'', 0), (1, ''uuid-x'', 1)]"
  "settled two_pending = []"
  "figmaConnection two_pending = Some 1"
  by (simp_all add: two_pending_def two_pending_run_def eval_defs)

lemma two_pending_counters:
  "uuidCalls two_pending = 2" "promiseCount two_pending = 2" "timerCount two_pending = 2"
  "isFigmaConnected two_pending"
  by (simp_all add: two_pending_def two_pending_run_def eval_defs)

lemma connected_idle_eval:
  "pendingRequests connected_idle = []" "timers connected_idle = []" "settled connected_idle = []"
  "figmaConnection connected_idle = Some 1" "uuidCalls connected_idle = 0"
  "promiseCount connected_idle = 0" "timerCount connected_idle = 0"
  "isFigmaConnected connected_idle"
  by (simp_all add: connected_idle_def eval_defs)

section \<open>Properties of the bridge\<close>

text \<open>
  C1, as stated, fails. A call is pending, and a failure result with its id arrives whose
  \<open>error\<close> field is an object with an own \<open>toString\<close> property. The handler deletes the
  entry and cancels the timer, then throws while rendering the error for its log, before
  it rejects: the call is resolved by nothing, and no later result, timer or close
  resolves it either. And a call sent on socket 2, after plugin 2 replaced plugin 1, is
  resolved by the close of socket 1, which is not the connection it was sent on.
\<close>

theorem unresolved_result_counterexample:
  "map fst (pendingRequests one_pending) = [''uuid-''] \<and>
   map_of (timers one_pending) 0 = Some (''uuid-'', 0) \<and>
   settled one_pending = [] \<and>
   is_result_envelope (Some unprintable_failure) \<and>
   own_prop unprintable_failure ''id'' = Some (JStr ''uuid-'') \<and>
   pendingRequests (step sample_uuid (Message 1 (Some unprintable_failure)) one_pending) = [] \<and>
   timers (step sample_uuid (Message 1 (Some unprintable_failure)) one_pending) = [] \<and>
   settled (step sample_uuid (Message 1 (Some unprintable_failure)) one_pending) = [] \<and>
   settled (run sample_uuid
              [Message 1 (Some unprintable_failure),
               Message 1 (Some (result_envelope ''uuid-'' JNull)),
               TimerFires 0, Close 1] one_pending) = [] \<and>
   map fst (sent superseded) = [1, 2, 2] \<and>
   figmaConnection superseded = Some 2 \<and>
   map (promise \<circ> snd) (pendingRequests superseded) = [0] \<and>
   settled (step sample_uuid (Close 1) superseded) =
     [(0, Rejected (Error ''Figma plugin disconnected''))]"
  by (simp add: one_pending_def unprintable_failure_def superseded_def eval_defs)

text \<open>
  C1, amended. No promise is ever settled twice, whatever sequence of connections, frames,
  closes, socket errors, timer firings, socket state changes and tool calls the server
  goes through from start-up; and while a call is in the table its promise is not settled
  and its timer is armed for it. For a call in the table, each of the following settles
  its promise, removes its entry and cancels its timer: a result with its id that reports
  success (resolved with the payload); a result with its id that reports failure and
  whose \<open>error\<close> field has a string form (rejected with that text, or with the default
  text when the field is empty or absent); its timer firing (rejected with the timeout
  reason, and the timer cannot fire again); the close of any socket, the one it was sent
  on or another (rejected with the disconnect reason, the table emptied). A result whose
  id is not in the table, a duplicate or late one, changes nothing.
\<close>

theorem resolved_at_most_once:
  "distinct (map fst (settled (run u evs (startup rs)))) \<and>
   (\<forall>(k, e) \<in> set (pendingRequests (run u evs (startup rs))).
      map_of (timers (run u evs (startup rs))) (timeout e) = Some (k, promise e) \<and>
      promise e \<notin> fst ` set (settled (run u evs (startup rs)))) \<and>
   (get_prop (Some response) ''id'' = Inr (Some (JStr k)) \<and>
    map_of (pendingRequests w) k = Some pending \<longrightarrow>
      map_of (pendingRequests (snd (handleFigmaResponse response w))) k = None \<and>
      map_of (timers (snd (handleFigmaResponse response w))) (timeout pending) = None) \<and>
   (get_prop (Some response) ''id'' = Inr (Some (JStr k)) \<and>
    map_of (pendingRequests w) k = Some pending \<and>
    truthy (own_prop response ''success'') \<longrightarrow>
      settled (snd (handleFigmaResponse response w)) =
        settled w @ [(promise pending, Resolved (own_prop response ''data''))]) \<and>
   (get_prop (Some response) ''id'' = Inr (Some (JStr k)) \<and>
    map_of (pendingRequests w) k = Some pending \<and>
    \<not> truthy (own_prop response ''success'') \<and>
    toStr (own_prop response ''error'') = Inr s \<longrightarrow>
      settled (snd (handleFigmaResponse response w)) =
        settled w @ [(promise pending,
                      Rejected (Error (if truthy (own_prop response ''error'') then s
                                       else ''Unknown error from Figma'')))]) \<and>
   (get_prop (Some response) ''id'' = Inr (Some (JStr k)) \<and>
    map_of (pendingRequests w) k = None \<longrightarrow>
      handleFigmaResponse response w = (None, w)) \<and>
   (map_of (timers w) t = Some (k, p) \<longrightarrow>
      map_of (pendingRequests (timeout_fires t w)) k = None \<and>
      map_of (timers (timeout_fires t w)) t = None \<and>
      settled (timeout_fires t w) = settled w @ [(p, Rejected timeout_error)] \<and>
      timeout_fires t (timeout_fires t w) = timeout_fires t w) \<and>
   pendingRequests (step u (Close ws) w) = [] \<and>
   settled (step u (Close ws) w) =
     settled w @ map (\<lambda>(k, pending). (promise pending, Rejected disconnected_error))
                   (pendingRequests w)"
proof (intro conjI impI)
  show "distinct (map fst (settled (run u evs (startup rs))))" by (rule settled_once)
next
  have c: "consistent (run u evs (startup rs))"
    by (rule consistent_run[OF consistent_startup])
  show "\<forall>(k, e) \<in> set (pendingRequests (run u evs (startup rs))).
      map_of (timers (run u evs (startup rs))) (timeout e) = Some (k, promise e) \<and>
      promise e \<notin> fst ` set (settled (run u evs (startup rs)))"
    using consistent_pending_armed[OF c] by blast
next
  assume a: "get_prop (Some response) ''id'' = Inr (Some (JStr k)) \<and>
             map_of (pendingRequests w) k = Some pending"
  show "map_of (pendingRequests (snd (handleFigmaResponse response w))) k = None"
    using handleFigmaResponse_found(2)[of response k w pending] a
    by (simp add: AList.delete_conv')
  show "map_of (timers (snd (handleFigmaResponse response w))) (timeout pending) = None"
    using handleFigmaResponse_found(1)[of response k w pending] a
    by (simp add: AList.delete_conv')
next
  assume a: "get_prop (Some response) ''id'' = Inr (Some (JStr k)) \<and>
             map_of (pendingRequests w) k = Some pending \<and>
             truthy (own_prop response ''success'')"
  show "settled (snd (handleFigmaResponse response w)) =
          settled w @ [(promise pending, Resolved (own_prop response ''data''))]"
    using handleFigmaResponse_success[of response k w pending] a by blast
next
  assume a: "get_prop (Some response) ''id'' = Inr (Some (JStr k)) \<and>
             map_of (pendingRequests w) k = Some pending \<and>
             \<not> truthy (own_prop response ''success'') \<and>
             toStr (own_prop response ''error'') = Inr s"
  show "settled (snd (handleFigmaResponse response w)) =
          settled w @ [(promise pending,
                        Rejected (Error (if truthy (own_prop response ''error'') then s
                                         else ''Unknown error from Figma'')))]"
    using handleFigmaResponse_failure[of response k w pending s] a by blast
next
  assume "get_prop (Some response) ''id'' = Inr (Some (JStr k)) \<and>
          map_of (pendingRequests w) k = None"
  then show "handleFigmaResponse response w = (None, w)"
    using handleFigmaResponse_not_found by blast
next
  assume a: "map_of (timers w) t = Some (k, p)"
  show "map_of (pendingRequests (timeout_fires t w)) k = None"
    by (rule timeout_fires_armed(1)[OF a])
  show "map_of (timers (timeout_fires t w)) t = None"
    by (rule timeout_fires_armed(2)[OF a])
  show "settled (timeout_fires t w) = settled w @ [(p, Rejected timeout_error)]"
    by (rule timeout_fires_armed(3)[OF a])
  show "timeout_fires t (timeout_fires t w) = timeout_fires t w"
    by (rule timeout_fires_armed(4)[OF a])
next
  show "pendingRequests (step u (Close ws) w) = []" by (simp add: on_close_table)
  show "settled (step u (Close ws) w) =
     settled w @ map (\<lambda>(k, pending). (promise pending, Rejected disconnected_error))
                   (pendingRequests w)"
    by (simp add: on_close_def Let_def reject_pending_settled)
qed

theorem resolved_at_most_once_witness:
  "settled (run sample_uuid sample_run (startup all_open)) = [(0, Resolved (Some (JStr ''pong'')))] \<and>
   distinct (map fst (settled (run sample_uuid sample_run (startup all_open)))) \<and>
   map fst (pendingRequests two_pending) = [''uuid-'', ''uuid-x''] \<and>
   map_of (timers two_pending) 0 = Some (''uuid-'', 0) \<and>
   settled two_pending = [] \<and>
   get_prop (Some (result_envelope ''uuid-'' (JStr ''pong''))) ''id'' = Inr (Some (JStr ''uuid-'')) \<and>
   map_of (pendingRequests two_pending) ''uuid-'' =
     Some \<lparr>id_pr = ''uuid-'', toolName = ''ping'', timestamp = 10, promise = 0, timeout = 0\<rparr> \<and>
   truthy (own_prop (result_envelope ''uuid-'' (JStr ''pong'')) ''success'') \<and>
   settled (snd (handleFigmaResponse (result_envelope ''uuid-'' (JStr ''pong'')) two_pending)) =
     [(0, Resolved (Some (JStr ''pong'')))] \<and>
   map_of (pendingRequests
             (snd (handleFigmaResponse (result_envelope ''uuid-'' (JStr ''pong'')) two_pending)))
     ''uuid-'' = None \<and>
   map_of (timers (snd (handleFigmaResponse (result_envelope ''uuid-'' (JStr ''pong'')) two_pending)))
     0 = None \<and>
   get_prop (Some (failure_envelope ''uuid-x'' ''boom'')) ''id'' = Inr (Some (JStr ''uuid-x'')) \<and>
   map_of (pendingRequests two_pending) ''uuid-x'' =
     Some \<lparr>id_pr = ''uuid-x'', toolName = ''ping'', timestamp = 11, promise = 1, timeout = 1\<rparr> \<and>
   \<not> truthy (own_prop (failure_envelope ''uuid-x'' ''boom'') ''success'') \<and>
   toStr (own_prop (failure_envelope ''uuid-x'' ''boom'') ''error'') = Inr ''boom'' \<and>
   settled (snd (handleFigmaResponse (failure_envelope ''uuid-x'' ''boom'') two_pending)) =
     [(1, Rejected (Error ''boom''))] \<and>
   map_of (pendingRequests connected_idle) ''uuid-'' = None \<and>
   handleFigmaResponse (result_envelope ''uuid-'' (JStr ''pong'')) connected_idle =
     (None, connected_idle) \<and>
   map_of (timers two_pending) 1 = Some (''uuid-x'', 1) \<and>
   map_of (pendingRequests (timeout_fires 1 two_pending)) ''uuid-x'' = None \<and>
   settled (timeout_fires 1 two_pending) = [(1, Rejected timeout_error)] \<and>
   timeout_fires 1 (timeout_fires 1 two_pending) = timeout_fires 1 two_pending \<and>
   pendingRequests (step sample_uuid (Close 7) two_pending) = [] \<and>
   settled (step sample_uuid (Close 7) two_pending) =
     [(0, Rejected disconnected_error), (1, Rejected disconnected_error)]"
proof -
  have ev: "settled (run sample_uuid sample_run (startup all_open)) =
              [(0, Resolved (Some (JStr ''pong'')))]"
    by (simp add: sample_run_def eval_defs)
  have g: "get_prop (Some (result_envelope ''uuid-'' (JStr ''pong''))) ''id'' =
             Inr (Some (JStr ''uuid-''))"
    "truthy (own_prop (result_envelope ''uuid-'' (JStr ''pong'')) ''success'')"
    "own_prop (result_envelope ''uuid-'' (JStr ''pong'')) ''data'' = Some (JStr ''pong'')"
    by (simp_all add: result_envelope_def)
  have f: "get_prop (Some (failure_envelope ''uuid-x'' ''boom'')) ''id'' =
             Inr (Some (JStr ''uuid-x''))"
    "\<not> truthy (own_prop (failure_envelope ''uuid-x'' ''boom'') ''success'')"
    "toStr (own_prop (failure_envelope ''uuid-x'' ''boom'') ''error'') = Inr ''boom''"
    "truthy (own_prop (failure_envelope ''uuid-x'' ''boom'') ''error'')"
    by (simp_all add: failure_envelope_def)
  have m1: "map_of (pendingRequests two_pending) ''uuid-'' =
     Some \<lparr>id_pr = ''uuid-'', toolName = ''ping'', timestamp = 10, promise = 0, timeout = 0\<rparr>"
    "map_of (pendingRequests two_pending) ''uuid-x'' =
     Some \<lparr>id_pr = ''uuid-x'', toolName = ''ping'', timestamp = 11, promise = 1, timeout = 1\<rparr>"
    by (simp_all add: two_pending_eval)
  have m2: "map_of (pendingRequests connected_idle) ''uuid-'' = None"
    by (simp add: connected_idle_eval)
  have m3: "map_of (timers two_pending) 1 = Some (''uuid-x'', 1)"
    "map_of (timers two_pending) 0 = Some (''uuid-'', 0)"
    by (simp_all add: two_pending_eval)
  note found = resolved_at_most_once
    [where u = sample_uuid and evs = sample_run and rs = all_open
       and response = "result_envelope ''uuid-'' (JStr ''pong'')" and k = "''uuid-''"
       and w = two_pending
       and pending = "\<lparr>id_pr = ''uuid-'', toolName = ''ping'', timestamp = 10,
                        promise = 0, timeout = 0\<rparr>"
       and s = "''boom''" and t = 0 and p = 0 and ws = 7]
  note failed = resolved_at_most_once
    [where u = sample_uuid and evs = sample_run and rs = all_open
       and response = "failure_envelope ''uuid-x'' ''boom''" and k = "''uuid-x''"
       and w = two_pending
       and pending = "\<lparr>id_pr = ''uuid-x'', toolName = ''ping'', timestamp = 11,
                        promise = 1, timeout = 1\<rparr>"
       and s = "''boom''" and t = 1 and p = 1 and ws = 7]
  note absent = resolved_at_most_once
    [where u = sample_uuid and evs = sample_run and rs = all_open
       and response = "result_envelope ''uuid-'' (JStr ''pong'')" and k = "''uuid-''"
       and w = connected_idle
       and pending = "\<lparr>id_pr = ''uuid-'', toolName = ''ping'', timestamp = 10,
                        promise = 0, timeout = 0\<rparr>"
       and s = "''boom''" and t = 1 and p = 1 and ws = 7]
  show ?thesis
    using ev g f m1 m2 m3 found failed absent
    by (simp add: two_pending_eval)
qed




text \<open>
  C3. When the socket closes, every pending entry is rejected with the disconnect reason,
  the timer of every entry is cancelled, the table is empty and the stored connection is
  cleared; any frame that arrives afterwards, a result for a former id included, leaves
  the state as it is.
\<close>

theorem close_rejects_all_pending:
  "pendingRequests (on_close w) = [] \<and>
   settled (on_close w) =
     settled w @ map (\<lambda>(k, pending). (promise pending, Rejected disconnected_error))
                   (pendingRequests w) \<and>
   (\<forall>(k, pending) \<in> set (pendingRequests w).
      map_of (timers (on_close w)) (timeout pending) = None) \<and>
   figmaConnection (on_close w) = None \<and>
   on_message parsed (on_close w) = on_close w"
proof (intro conjI)
  show e: "pendingRequests (on_close w) = []" by (rule on_close_table)
  show "settled (on_close w) =
     settled w @ map (\<lambda>(k, pending). (promise pending, Rejected disconnected_error))
                   (pendingRequests w)"
    by (simp add: on_close_def Let_def reject_pending_settled)
  show "\<forall>(k, pending) \<in> set (pendingRequests w).
      map_of (timers (on_close w)) (timeout pending) = None"
  proof (clarify)
    fix k pending
    assume "(k, pending) \<in> set (pendingRequests w)"
    then have "timeout pending \<in> (timeout \<circ> snd) ` set (pendingRequests w)" by force
    then show "map_of (timers (on_close w)) (timeout pending) = None"
      by (simp add: on_close_def Let_def reject_pending_timers map_of_filter_out)
  qed
  show "figmaConnection (on_close w) = None"
    by (simp add: on_close_def Let_def reject_pending_frame)
  show "on_message parsed (on_close w) = on_close w"
    by (rule on_message_empty_table[OF e])
qed

theorem close_rejects_all_pending_witness:
  "map fst (pendingRequests two_pending) = [''uuid-'', ''uuid-x''] \<and>
   pendingRequests (on_close two_pending) = [] \<and>
   settled (on_close two_pending) =
     [(0, Rejected (Error ''Figma plugin disconnected'')),
      (1, Rejected (Error ''Figma plugin disconnected''))] \<and>
   map_of (timers (on_close two_pending)) 0 = None \<and>
   map_of (timers (on_close two_pending)) 1 = None \<and>
   on_message (Some (result_envelope ''uuid-'' JNull)) (on_close two_pending) =
     on_close two_pending"
  using close_rejects_all_pending [of two_pending "Some (result_envelope ''uuid-'' JNull)"]
  by (simp add: two_pending_eval disconnected_error_def)

text \<open>
  C4, as stated, fails. Plugin 1 connects, plugin 2 connects and replaces it, a call is
  sent on socket 2 and is pending. The close of the superseded socket 1 then clears the
  stored connection to plugin 2 and rejects the call pending on it.
\<close>

theorem stale_close_counterexample:
  "figmaConnection superseded = Some 2 \<and>
   isFigmaConnected superseded \<and>
   \<not> isFigmaConnected (step sample_uuid (Close 1) superseded) \<and>
   map fst (sent superseded) = [1, 2, 2] \<and>
   map fst (pendingRequests superseded) = [''uuid-''] \<and>
   settled superseded = [] \<and>
   figmaConnection (step sample_uuid (Close 1) superseded) = None \<and>
   pendingRequests (step sample_uuid (Close 1) superseded) = [] \<and>
   settled (step sample_uuid (Close 1) superseded) =
     [(0, Rejected (Error ''Figma plugin disconnected''))]"
  by (simp add: superseded_def eval_defs)

text \<open>
  C4, amended. The close handler does not look at which socket closed: a close of any
  socket, the stored one or a superseded one, clears the stored connection, resets
  \<open>isConnected\<close>, rejects every pending entry with the disconnect reason and empties
  the table.
\<close>

theorem close_ignores_handle:
  "figmaConnection (step u (Close ws) w) = None \<and>
   \<not> isConnected (step u (Close ws) w) \<and>
   pendingRequests (step u (Close ws) w) = [] \<and>
   settled (step u (Close ws) w) =
     settled w @ map (\<lambda>(k, pending). (promise pending, Rejected disconnected_error))
                   (pendingRequests w)"
  by (simp add: on_close_table) (simp add: on_close_def Let_def reject_pending_settled reject_pending_frame)

text \<open>
  C5. An invocation made while no connection is active throws the not-connected error at
  once and leaves the whole state as it was: no UUID is drawn, no entry is registered, no
  timer is armed, nothing is sent and no promise is created. The tool handler returns its
  error result without waiting for anything.
\<close>

theorem not_connected_fails_fast:
  "\<not> isFigmaConnected w \<Longrightarrow>
     sendToFigma randomUUID now sendFault tn args w = (Inl not_connected_error, w) \<and>
     callTool_begin randomUUID now sendFault ''ping'' a w =
       (Returned (error_result ''ping'' (error_message not_connected_error)), w)"
  by (simp add: sendToFigma_def callTool_begin_def)

theorem not_connected_fails_fast_witness:
  "\<not> isFigmaConnected (startup all_open) \<and>
   sendToFigma sample_uuid 7 None ''ping'' JNull (startup all_open)
     = (Inl not_connected_error, startup all_open) \<and>
   callTool_begin sample_uuid 7 None ''ping'' None (startup all_open) =
       (Returned (error_result ''ping'' (error_message not_connected_error)), startup all_open)"
proof -
  have h: "\<not> isFigmaConnected (startup all_open)"
    by (simp add: isFigmaConnected_def startup_def)
  show ?thesis
    using h not_connected_fails_fast [OF h, of sample_uuid 7 None "''ping''" JNull None]
    by simp
qed

text \<open>
  C6. In each of the two servers, a call of a tool whose name is not among the tools that
  server lists returns the unknown-tool error result at once, whatever the connection
  state, and leaves the whole state as it was: no table entry, no timer, nothing sent.
\<close>

theorem unknown_tool_fails_fast:
  "(name \<notin> set listTools \<longrightarrow>
      callTool_begin randomUUID now sendFault name args w =
        (Returned \<lparr>content = [(''text'', ''Error executing tool '' @ [CHR 0x22] @ name @
                                         [CHR 0x22] @ '': Unknown tool: '' @ name)],
                   isError = Some True\<rparr>, w)) \<and>
   (name \<notin> set listTools_part_000 \<longrightarrow>
      callTool_begin_part_000 randomUUID now sendFault mathMin name args w =
        (Inl \<lparr>content = [(''text'', ''Error executing tool '' @ [CHR 0x22] @ name @
                                    [CHR 0x22] @ '': Unknown tool: '' @ name)],
              isError = Some True\<rparr>, w))"
  by (simp add: listTools_def callTool_begin_def listTools_part_000_def
        callTool_begin_part_000_def error_result_def)

theorem unknown_tool_fails_fast_witness:
  "''delete_node'' \<notin> set listTools \<and>
   callTool_begin sample_uuid 3 None ''delete_node'' None connected_idle =
     (Returned \<lparr>content = [(''text'', ''Error executing tool '' @ [CHR 0x22] @ ''delete_node'' @
                                      [CHR 0x22] @ '': Unknown tool: delete_node'')],
                isError = Some True\<rparr>, connected_idle) \<and>
   ''delete_node'' \<notin> set listTools_part_000 \<and>
   callTool_begin_part_000 sample_uuid 3 None sample_min ''delete_node'' None connected_idle =
     (Inl \<lparr>content = [(''text'', ''Error executing tool '' @ [CHR 0x22] @ ''delete_node'' @
                                 [CHR 0x22] @ '': Unknown tool: delete_node'')],
           isError = Some True\<rparr>, connected_idle)"
proof -
  have h: "''delete_node'' \<notin> set listTools" "''delete_node'' \<notin> set listTools_part_000"
    by (simp_all add: listTools_def listTools_part_000_def)
  note a = unknown_tool_fails_fast
    [where name = "''delete_node''" and randomUUID = sample_uuid and now = 3
       and sendFault = None and args = None and w = connected_idle and mathMin = sample_min]
  note b = unknown_tool_fails_fast
    [where name = "''delete_node''" and randomUUID = sample_uuid and now = 3
       and sendFault = None and args = None and w = connected_idle and mathMin = sample_min]
  show ?thesis
    using h a b by simp
qed

text \<open>
  C7. If \<open>send\<close> throws after the pending request was registered under a fresh id, the
  table is again what it was before the call, the timer created for the call is not armed,
  nothing has been sent, and the promise of the call is rejected with the send-failure
  reason.
\<close>

theorem send_failure_rolls_back:
  assumes "isFigmaConnected w"
    and "randomUUID (uuidCalls w) \<notin> fst ` set (pendingRequests w)"
  shows "fst (sendToFigma randomUUID now (Some error) tn args w) = Inr (promiseCount w) \<and>
         pendingRequests (snd (sendToFigma randomUUID now (Some error) tn args w)) = pendingRequests w \<and>
         map_of (timers (snd (sendToFigma randomUUID now (Some error) tn args w))) (timerCount w) = None \<and>
         set (timers (snd (sendToFigma randomUUID now (Some error) tn args w))) \<subseteq> set (timers w) \<and>
         sent (snd (sendToFigma randomUUID now (Some error) tn args w)) = sent w \<and>
         settled (snd (sendToFigma randomUUID now (Some error) tn args w)) =
           settled w @ [(promiseCount w,
              Rejected (Error (''Failed to send request to Figma: '' @ error_toString error)))]"
proof -
  have t: "set (AList.delete k (al @ [(k, v)])) \<subseteq> set al" for k :: nat and v :: "string \<times> nat" and al
    by (auto simp add: AList.delete_eq)
  show ?thesis
    using assms t
    by (simp add: sendToFigma_def Let_def clearTimeout_def settle_def
        AList.delete_update_same AList.delete_id AList.delete_conv')
qed

theorem send_failure_rolls_back_witness:
  "isFigmaConnected two_pending \<and>
   sample_uuid (uuidCalls two_pending) \<notin> fst ` set (pendingRequests two_pending) \<and>
   fst (sendToFigma sample_uuid 12 (Some (Error ''socket gone'')) ''ping'' JNull two_pending) = Inr 2 \<and>
   pendingRequests (snd (sendToFigma sample_uuid 12 (Some (Error ''socket gone'')) ''ping'' JNull two_pending))
     = pendingRequests two_pending \<and>
   map_of (timers (snd (sendToFigma sample_uuid 12 (Some (Error ''socket gone'')) ''ping'' JNull two_pending))) 2 = None \<and>
   settled (snd (sendToFigma sample_uuid 12 (Some (Error ''socket gone'')) ''ping'' JNull two_pending)) =
     [(2, Rejected (Error ''Failed to send request to Figma: Error: socket gone''))]"
proof -
  have h1: "isFigmaConnected two_pending" by (simp add: two_pending_counters)
  have h2: "sample_uuid (uuidCalls two_pending) \<notin> fst ` set (pendingRequests two_pending)"
    by (simp add: two_pending_counters two_pending_eval sample_uuid_def eval_nat_numeral)
  note r = send_failure_rolls_back
    [where randomUUID = sample_uuid and w = two_pending and now = 12
       and error = "Error ''socket gone''" and tn = "''ping''" and args = JNull]
  show ?thesis
    using h1 h2 r by (simp add: two_pending_counters two_pending_eval)
qed

text \<open>
  C8. The tool handler always returns a result made of one text item. For a tool that
  is not listed, for a call made while not connected, and for every rejection of the
  awaited promise (timeout, disconnect, an error reported by the plugin, a send failure)
  the text names the tool and the reason, and \<open>isError\<close> is set. A resolved promise
  gives either the success text or, when formatting the payload throws, again an error
  result.
\<close>

theorem callTool_always_returns_result:
  "(name \<notin> set listTools \<longrightarrow>
      callTool u now sf name args w out =
        \<lparr>content = [(''text'', ''Error executing tool '' @ [CHR 0x22] @ name @ [CHR 0x22] @
                              '': Unknown tool: '' @ name)],
         isError = Some True\<rparr>) \<and>
   (name \<in> set listTools \<and> \<not> isFigmaConnected w \<longrightarrow>
      callTool u now sf name args w out =
        \<lparr>content = [(''text'', ''Error executing tool '' @ [CHR 0x22] @ name @ [CHR 0x22] @ '': '' @
                              ''Figma plugin is not connected. Please open Figma and run the MCP plugin.'')],
         isError = Some True\<rparr>) \<and>
   (name \<in> set listTools \<and> isFigmaConnected w \<longrightarrow>
      callTool u now sf name args w (Rejected error) =
        \<lparr>content = [(''text'', ''Error executing tool '' @ [CHR 0x22] @ name @ [CHR 0x22] @ '': '' @
                              error_message error)],
         isError = Some True\<rparr>) \<and>
   (\<exists>txt. callTool u now sf name args w out = \<lparr>content = [(''text'', txt)], isError = None\<rparr> \<or>
          callTool u now sf name args w out =
            \<lparr>content = [(''text'', ''Error executing tool '' @ [CHR 0x22] @ name @ [CHR 0x22] @
                                  '': '' @ txt)],
             isError = Some True\<rparr>)"
proof (intro conjI impI)
  show "callTool u now sf name args w out =
        \<lparr>content = [(''text'', ''Error executing tool '' @ [CHR 0x22] @ name @ [CHR 0x22] @
                              '': Unknown tool: '' @ name)],
         isError = Some True\<rparr>" if "name \<notin> set listTools"
    using that by (simp add: listTools_def callTool_def callTool_begin_def error_result_def)
  show "callTool u now sf name args w out =
        \<lparr>content = [(''text'', ''Error executing tool '' @ [CHR 0x22] @ name @ [CHR 0x22] @ '': '' @
                              ''Figma plugin is not connected. Please open Figma and run the MCP plugin.'')],
         isError = Some True\<rparr>" if "name \<in> set listTools \<and> \<not> isFigmaConnected w"
    using that
    by (simp add: listTools_def callTool_def callTool_begin_def sendToFigma_def error_result_def
          not_connected_error_def)
  show "callTool u now sf name args w (Rejected error) =
        \<lparr>content = [(''text'', ''Error executing tool '' @ [CHR 0x22] @ name @ [CHR 0x22] @ '': '' @
                              error_message error)],
         isError = Some True\<rparr>" if "name \<in> set listTools \<and> isFigmaConnected w"
    using that
    by (simp add: listTools_def callTool_def callTool_begin_def sendToFigma_def Let_def
          callTool_resume_def error_result_def split: option.splits)
  show "\<exists>txt. callTool u now sf name args w out = \<lparr>content = [(''text'', txt)], isError = None\<rparr> \<or>
          callTool u now sf name args w out =
            \<lparr>content = [(''text'', ''Error executing tool '' @ [CHR 0x22] @ name @ [CHR 0x22] @
                                  '': '' @ txt)],
             isError = Some True\<rparr>"
    by (simp add: callTool_def callTool_begin_def sendToFigma_def Let_def
          callTool_resume_def error_result_def
          split: option.splits progress.splits outcome.splits sum.splits)
qed

theorem callTool_always_returns_result_witness:
  "''pong'' \<notin> set listTools \<and> ''ping'' \<in> set listTools \<and>
   \<not> isFigmaConnected (startup all_open) \<and> isFigmaConnected connected_idle \<and>
   callTool sample_uuid 0 None ''pong'' None connected_idle (Resolved None) =
     \<lparr>content = [(''text'', ''Error executing tool '' @ [CHR 0x22] @ ''pong'' @ [CHR 0x22] @
                           '': Unknown tool: pong'')], isError = Some True\<rparr> \<and>
   callTool sample_uuid 0 None ''ping'' None (startup all_open) (Resolved None) =
     \<lparr>content = [(''text'', ''Error executing tool '' @ [CHR 0x22] @ ''ping'' @ [CHR 0x22] @
        '': Figma plugin is not connected. Please open Figma and run the MCP plugin.'')],
      isError = Some True\<rparr> \<and>
   callTool sample_uuid 0 None ''ping'' None connected_idle (Rejected timeout_error) =
     \<lparr>content = [(''text'', ''Error executing tool '' @ [CHR 0x22] @ ''ping'' @ [CHR 0x22] @
        '': Request timeout: Figma did not respond within 5000ms'')],
      isError = Some True\<rparr> \<and>
   callTool sample_uuid 0 None ''ping'' None connected_idle (Rejected disconnected_error) =
     \<lparr>content = [(''text'', ''Error executing tool '' @ [CHR 0x22] @ ''ping'' @ [CHR 0x22] @
        '': Figma plugin disconnected'')],
      isError = Some True\<rparr> \<and>
   callTool sample_uuid 0 None ''ping'' None connected_idle (Rejected (Error ''Font not loaded'')) =
     \<lparr>content = [(''text'', ''Error executing tool '' @ [CHR 0x22] @ ''ping'' @ [CHR 0x22] @
        '': Font not loaded'')],
      isError = Some True\<rparr>"
proof -
  have h: "''pong'' \<notin> set listTools" "''ping'' \<in> set listTools"
    "\<not> isFigmaConnected (startup all_open)" "isFigmaConnected connected_idle"
    by (simp_all add: connected_idle_def eval_defs)
  show ?thesis
    using h
      callTool_always_returns_result [of "''pong''" sample_uuid 0 None None connected_idle "Resolved None" timeout_error]
      callTool_always_returns_result [of "''ping''" sample_uuid 0 None None "startup all_open" "Resolved None" timeout_error]
      callTool_always_returns_result [of "''ping''" sample_uuid 0 None None connected_idle "Resolved None" timeout_error]
      callTool_always_returns_result [of "''ping''" sample_uuid 0 None None connected_idle "Resolved None" disconnected_error]
      callTool_always_returns_result [of "''ping''" sample_uuid 0 None None connected_idle "Resolved None" "Error ''Font not loaded''"]
    by (simp add: timeout_error_def disconnected_error_def)
qed

text \<open>
  C9. A frame that is not a result envelope (an event, a frame whose \<open>type\<close> is
  unknown or missing, \<open>null\<close>, or bytes that do not parse) leaves the whole state as
  it is: the table, the timers, the settled promises and the stored connection.
\<close>

theorem non_result_message_ignored:
  "\<not> is_result_envelope parsed \<Longrightarrow> step u (Message ws parsed) w = w"
  by (cases parsed) (auto simp add: is_result_envelope_def on_message_def split: sum.splits)

theorem non_result_message_ignored_witness:
  "\<not> is_result_envelope (Some (JObj [(''type'', JStr ''event''), (''event'', JStr ''selectionchange''),
                                      (''data'', JNull)])) \<and>
   \<not> is_result_envelope (Some (JObj [(''id'', JStr ''uuid-''), (''type'', JStr ''tool_reply'')])) \<and>
   \<not> is_result_envelope (Some (JObj [(''id'', JStr ''uuid-''), (''success'', JBool True)])) \<and>
   \<not> is_result_envelope (Some JNull) \<and>
   \<not> is_result_envelope None \<and>
   step sample_uuid (Message 1 (Some (JObj [(''type'', JStr ''event''),
       (''event'', JStr ''selectionchange''), (''data'', JNull)]))) two_pending = two_pending \<and>
   step sample_uuid (Message 1 (Some (JObj [(''id'', JStr ''uuid-''), (''type'', JStr ''tool_reply'')])))
     two_pending = two_pending \<and>
   step sample_uuid (Message 1 (Some (JObj [(''id'', JStr ''uuid-''), (''success'', JBool True)])))
     two_pending = two_pending \<and>
   step sample_uuid (Message 1 (Some JNull)) two_pending = two_pending \<and>
   step sample_uuid (Message 1 None) two_pending = two_pending"
proof -
  have h: "\<not> is_result_envelope (Some (JObj [(''type'', JStr ''event''), (''event'', JStr ''selectionchange''),
                                      (''data'', JNull)]))"
   "\<not> is_result_envelope (Some (JObj [(''id'', JStr ''uuid-''), (''type'', JStr ''tool_reply'')]))"
   "\<not> is_result_envelope (Some (JObj [(''id'', JStr ''uuid-''), (''success'', JBool True)]))"
   "\<not> is_result_envelope (Some JNull)"
   "\<not> is_result_envelope None"
    by (simp_all add: is_result_envelope_def)
  show ?thesis
    using h non_result_message_ignored [OF h(1), of sample_uuid 1 two_pending] non_result_message_ignored [OF h(2), of sample_uuid 1 two_pending]
      non_result_message_ignored [OF h(3), of sample_uuid 1 two_pending] non_result_message_ignored [OF h(4), of sample_uuid 1 two_pending]
      non_result_message_ignored [OF h(5), of sample_uuid 1 two_pending]
    by simp
qed

text \<open>
  C10. The bridge counts as connected exactly when a socket is stored and its
  \<open>readyState\<close> is \<open>OPEN\<close>. With a socket stored in any other state, \<open>sendToFigma\<close>
  throws the not-connected error and changes nothing; nothing is sent on that socket.
\<close>

theorem active_means_open:
  "(isFigmaConnected w \<longleftrightarrow> (\<exists>ws. figmaConnection w = Some ws \<and> readyState w ws = OPEN)) \<and>
   (figmaConnection w = Some ws \<and> readyState w ws \<noteq> OPEN \<longrightarrow>
      sendToFigma randomUUID now sendFault tn args w = (Inl not_connected_error, w))"
  by (simp add: isFigmaConnected_def sendToFigma_def split: option.splits)

theorem active_means_open_witness:
  "figmaConnection closing = Some 1 \<and> readyState closing 1 = CLOSING \<and> \<not> isFigmaConnected closing \<and>
   sendToFigma sample_uuid 5 None ''ping'' JNull closing = (Inl not_connected_error, closing)"
proof -
  have h: "figmaConnection closing = Some 1" "readyState closing 1 = CLOSING"
    by (simp_all add: closing_def eval_defs)
  show ?thesis
    using h active_means_open [of closing 1 sample_uuid 5 None "''ping''" JNull] by simp
qed

end
